theory Spec2Isabelle
  imports Main "HOL-Library.Char_ord" "HOL-Library.List_Lexorder" "HOL-Library.Sublist"
begin

section \<open>Delta discovery: the per-connection protocol state\<close>

text \<open>
  A shallow embedding of the delta xDS server of package \<open>xds\<close>: the request processor
  (\<open>processDeltaRequest\<close>, \<open>shouldRespondDelta\<close>), the push scheduler
  (\<open>pushConnectionDelta\<close>), the send path (\<open>pushDeltaXds\<close>, \<open>sendDelta\<close>) and the
  receive loop (\<open>receiveDelta\<close>).

  Strings are byte lists; with the orders of \<open>Char_ord\<close> and \<open>List_Lexorder\<close> the order
  on \<open>string\<close> is the bytewise lexicographic order of Go's \<open>sort.Strings\<close>.
  A nil slice and an empty slice of a decoded request are both the empty list; where the
  code tests a slice against nil the model uses \<open>option\<close>. Time is a natural number of
  ticks, and \<open>time.Now()\<close> is the argument \<open>now\<close>. Metrics, debug/info/warn logging, the
  status reporter and the status generator have no effect on the protocol state and are
  left out, as is the sidecar scope of the proxy; the entries of \<open>deltaLog.Errorf\<close> are
  kept in \<open>errorLog\<close>.
\<close>

subsection \<open>Data model\<close>

type_synonym time = nat

record PushContext =
  PushVersion :: string
  LedgerVersion :: string

datatype TriggerReason = ProxyRequest | ConfigUpdate | OtherReason string

record PushRequest =
  Full :: bool
  Push :: PushContext
  Reason :: "TriggerReason list"
  Start :: time

record WatchedResource =
  TypeUrl :: string
  ResourceNames :: "string list"
  VersionSent :: string
  NonceSent :: string
  NonceAcked :: string
  NonceNacked :: string
  LastSent :: time

record Status =
  Code :: int
  Message :: string

record Node =
  Id :: string

record DeltaDiscoveryRequest =
  ReqNode :: "Node option"
  ReqTypeUrl :: string
  ResourceNamesSubscribe :: "string list"
  ResourceNamesUnsubscribe :: "string list"
  ResponseNonce :: string
  ErrorDetail :: "Status option"

record Resource =
  Name :: string
  Value :: string

record DeltaDiscoveryResponse =
  RespTypeUrl :: string
  SystemVersionInfo :: string
  Nonce :: string
  Resources :: "Resource list"
  RemovedResources :: "string list"

datatype error = StatusError int string | TransportError string | GeneratorError string

definition InvalidArgument :: int where
  "InvalidArgument = 3"

datatype LogEntry = AckMismatch string bool bool | RecvTerminated error

datatype Panic = AckMismatchPanic string bool bool | NilDereference

text \<open>
  The connection, with the fields of \<open>con.proxy\<close> that the protocol uses. A pointer to a
  \<open>WatchedResource\<close> is the key of the table slot that holds it: every entry is created
  under its own type URL and no entry is ever removed or replaced. \<open>sent\<close> is the list of
  frames written to the stream, oldest first.
\<close>

record Connection =
  WatchedResources :: "string \<rightharpoonup> WatchedResource"
  blockedPushes :: "string \<rightharpoonup> PushRequest"
  sent :: "DeltaDiscoveryResponse list"
  errorLog :: "LogEntry list"

text \<open>The zero value \<open>&model.WatchedResource{TypeUrl: t, ResourceNames: ns}\<close>.\<close>

definition newWatchedResource :: "string \<Rightarrow> string list \<Rightarrow> WatchedResource" where
  "newWatchedResource t ns =
     \<lparr>TypeUrl = t, ResourceNames = ns, VersionSent = [], NonceSent = [], NonceAcked = [],
      NonceNacked = [], LastSent = 0\<rparr>"

subsection \<open>String sets\<close>

text \<open>
  Package \<open>sets\<close> is not among the sources. The spec gives the subscription names
  set semantics, with an idempotent union and a difference, so a \<open>sets.Set\<close> is a set of
  strings here.
\<close>

text \<open>
  Modelled from the spec: \<open>sets.NewSet\<close> is not among the sources. The set of the given
  items.
\<close>

definition NewSet :: "string list \<Rightarrow> string set" where
  "NewSet items = set items"

text \<open>
  Modelled from the spec: \<open>Set.Insert\<close> is not among the sources. The union with the
  given items.
\<close>

definition Insert :: "string set \<Rightarrow> string list \<Rightarrow> string set" where
  "Insert s items = s \<union> set items"

text \<open>
  Modelled from the spec: \<open>Set.Delete\<close> is not among the sources. The difference with
  the given items.
\<close>

definition Delete :: "string set \<Rightarrow> string list \<Rightarrow> string set" where
  "Delete s items = s - set items"

text \<open>
  Modelled from the spec: \<open>Set.SortedList\<close> is not among the sources. The members in
  ascending order, as the name says; the sets of names in use are finite.
\<close>

definition SortedList :: "string set \<Rightarrow> string list" where
  "SortedList s = sorted_list_of_set s"

text \<open>
  Modelled from the spec: \<open>listEqualUnordered\<close> is not among the sources. The spec asks
  for an order-independent comparison of the two name sets.
\<close>

definition listEqualUnordered :: "string list \<Rightarrow> string list \<Rightarrow> bool" where
  "listEqualUnordered a b = (set a = set b)"

subsection \<open>Request processing\<close>

definition deltaWatchedResources :: "string list \<Rightarrow> DeltaDiscoveryRequest \<Rightarrow> string list" where
  "deltaWatchedResources existing request =
     SortedList (Delete (Insert (NewSet existing) (ResourceNamesSubscribe request))
                        (ResourceNamesUnsubscribe request))"

text \<open>
  A resource generator is one of the two interfaces that the type switch of
  \<open>pushDeltaXds\<close> tells apart. The delta variant returns resources, removed names,
  the used-delta flag and an error; the other one resources and an error. A nil slice is
  \<open>None\<close>.
\<close>

datatype Generator =
    XdsDeltaResourceGenerator
      "Connection \<Rightarrow> PushContext \<Rightarrow> PushRequest \<Rightarrow> WatchedResource \<Rightarrow>
         Resource list option \<times> string list option \<times> bool \<times> error option"
  | XdsResourceGenerator
      "Connection \<Rightarrow> PushContext \<Rightarrow> WatchedResource \<Rightarrow> PushRequest \<Rightarrow>
         Resource list option \<times> error option"

text \<open>
  What the server is configured with and what it calls outside this file: the feature
  flags, \<open>v3.DebugType\<close>, and the collaborators of the spec's section 6. \<open>Send\<close> is the
  transport, given the number of frames already written; \<open>pushXds\<close> is the
  state-of-the-world push used for debug types (always called with a full push request);
  \<open>CopyMerge\<close> merges a push request into a possibly absent blocked one; \<open>pushOrder\<close>
  is the order in which \<open>pushDetails\<close> lists the types.
\<close>

record Server =
  EnableFlowControl :: bool
  EnableUnsafeAssertions :: bool
  FlowControlTimeout :: time
  DebugType :: string
  globalPushContext :: PushContext
  isWildcardTypeURL :: "string \<Rightarrow> bool"
  nonce :: "string \<Rightarrow> string"
  findGenerator :: "string \<Rightarrow> Generator option"
  Send :: "nat \<Rightarrow> DeltaDiscoveryResponse \<Rightarrow> error option"
  ProxyNeedsPush :: "Connection \<Rightarrow> PushRequest \<Rightarrow> bool"
  shouldProcessRequest :: "Connection \<Rightarrow> DeltaDiscoveryRequest \<Rightarrow> bool"
  pushXds :: "Connection \<Rightarrow> WatchedResource \<Rightarrow> error option \<times> Connection"
  CopyMerge :: "PushRequest option \<Rightarrow> PushRequest \<Rightarrow> PushRequest"
  pushOrder :: "string list"
  initConnection :: "Node \<Rightarrow> string list \<Rightarrow> error option"

definition shouldRespondDelta ::
    "Server \<Rightarrow> Connection \<Rightarrow> DeltaDiscoveryRequest \<Rightarrow> Panic + (bool \<times> Connection)" where
  "shouldRespondDelta s con request =
    (if ErrorDetail request \<noteq> None then
       Inr (False,
         (case WatchedResources con (ReqTypeUrl request) of
            None \<Rightarrow> con
          | Some w \<Rightarrow> con\<lparr>WatchedResources := (WatchedResources con)
                (ReqTypeUrl request \<mapsto> w\<lparr>NonceNacked := ResponseNonce request\<rparr>)\<rparr>))
     else
       (case WatchedResources con (ReqTypeUrl request) of
          None \<Rightarrow>
            Inr (True, con\<lparr>WatchedResources := (WatchedResources con)
                (ReqTypeUrl request \<mapsto>
                   newWatchedResource (ReqTypeUrl request) (deltaWatchedResources [] request))\<rparr>)
        | Some previousInfo \<Rightarrow>
            if ResponseNonce request \<noteq> [] \<and> ResponseNonce request \<noteq> NonceSent previousInfo then
              Inr (False, con\<lparr>WatchedResources := (WatchedResources con)
                (ReqTypeUrl request \<mapsto> previousInfo\<lparr>NonceNacked := []\<rparr>)\<rparr>)
            else
              (let previousResources = ResourceNames previousInfo;
                   deltaResources = deltaWatchedResources previousResources request;
                   con1 = con\<lparr>WatchedResources := (WatchedResources con)
                     (ReqTypeUrl request \<mapsto>
                        previousInfo\<lparr>NonceAcked := ResponseNonce request, NonceNacked := [],
                                     ResourceNames := deltaResources\<rparr>)\<rparr>;
                   oldAck = listEqualUnordered previousResources deltaResources;
                   newAck = (ResponseNonce request \<noteq> [])
               in if newAck \<noteq> oldAck then
                    (if EnableUnsafeAssertions s
                     then Inl (AckMismatchPanic (ReqTypeUrl request) newAck oldAck)
                     else Inr (\<not> oldAck,
                       con1\<lparr>errorLog := errorLog con1 @
                          [AckMismatch (ReqTypeUrl request) newAck oldAck]\<rparr>))
                  else Inr (\<not> oldAck, con1))))"

subsection \<open>The send path\<close>

definition sendDelta ::
    "Server \<Rightarrow> Connection \<Rightarrow> DeltaDiscoveryResponse \<Rightarrow> time \<Rightarrow> error option \<times> Connection" where
  "sendDelta s conn res now =
    (case Send s (length (sent conn)) res of
       None \<Rightarrow>
         (let conn1 = conn\<lparr>sent := sent conn @ [res]\<rparr> in
          if Nonce res \<noteq> [] \<and> \<not> prefix (DebugType s) (RespTypeUrl res) then
            (let w = (case WatchedResources conn1 (RespTypeUrl res) of
                        None \<Rightarrow> newWatchedResource (RespTypeUrl res) []
                      | Some w0 \<Rightarrow> w0)
             in (None, conn1\<lparr>WatchedResources := (WatchedResources conn1)
                   (RespTypeUrl res \<mapsto>
                      w\<lparr>NonceSent := Nonce res, VersionSent := SystemVersionInfo res,
                        LastSent := now\<rparr>)\<rparr>))
          else (None, conn1))
     | Some e \<Rightarrow> (Some e, conn))"

definition extractNames :: "Resource list \<Rightarrow> string list" where
  "extractNames rs = map Name rs"

text \<open>
  The type switch of \<open>pushDeltaXds\<close>: a generator of the second kind leaves
  \<open>deletedRes\<close> nil and \<open>usedDelta\<close> false.
\<close>

definition generate ::
    "Generator \<Rightarrow> Connection \<Rightarrow> PushContext \<Rightarrow> PushRequest \<Rightarrow> WatchedResource \<Rightarrow>
     Resource list option \<times> string list option \<times> bool \<times> error option" where
  "generate gen con push req w =
    (case gen of
       XdsDeltaResourceGenerator g \<Rightarrow> g con push req w
     | XdsResourceGenerator g \<Rightarrow> (case g con push w req of (r, e) \<Rightarrow> (r, None, False, e)))"

text \<open>
  \<open>wp\<close> is the pointer \<open>w\<close> (the key of a table slot, or nil) and \<open>subscribe\<close> the
  optional list of names the client asked for.
\<close>

definition pushDeltaXds ::
    "Server \<Rightarrow> Connection \<Rightarrow> PushContext \<Rightarrow> string option \<Rightarrow> string list option \<Rightarrow>
     PushRequest \<Rightarrow> time \<Rightarrow> error option \<times> Connection" where
  "pushDeltaXds s con push wp subscribe req now =
    (case wp of
       None \<Rightarrow> (None, con)
     | Some k \<Rightarrow>
        (case WatchedResources con k of
           None \<Rightarrow> (None, con)
         | Some w0 \<Rightarrow>
            (case findGenerator s (TypeUrl w0) of
               None \<Rightarrow> (None, con)
             | Some gen \<Rightarrow>
                (let w = (case subscribe of
                            None \<Rightarrow> w0
                          | Some names \<Rightarrow> newWatchedResource (TypeUrl w0) names);
                     (res, deletedRes, usedDelta, err) = generate gen con push req w
                 in if err \<noteq> None \<or> (res = None \<and> deletedRes = None) then (err, con)
                    else
                      (let resources = (case res of None \<Rightarrow> [] | Some r \<Rightarrow> r);
                           currentResources = extractNames resources;
                           removed =
                             (if usedDelta then (case deletedRes of None \<Rightarrow> [] | Some d \<Rightarrow> d)
                              else if Full req then
                                SortedList (Delete (NewSet (ResourceNames w)) currentResources)
                              else []);
                           resp = \<lparr>RespTypeUrl = TypeUrl w,
                                   SystemVersionInfo = PushVersion push,
                                   Nonce = nonce s (LedgerVersion push),
                                   Resources = resources,
                                   RemovedResources = removed\<rparr>;
                           con1 = (if subscribe = None \<and> isWildcardTypeURL s (TypeUrl w)
                                   then con\<lparr>WatchedResources := (WatchedResources con)
                                          (k \<mapsto> w0\<lparr>ResourceNames := currentResources\<rparr>)\<rparr>
                                   else con)
                       in sendDelta s con1 resp now)))))"

subsection \<open>The request processor\<close>

text \<open>
  Modelled from the spec: \<open>Connection.Watched\<close> is not among the sources. It returns the
  connection's watched resource of a type, nil when there is none.
\<close>

definition Watched :: "Connection \<Rightarrow> string \<Rightarrow> string option" where
  "Watched con t = (if WatchedResources con t = None then None else Some t)"

definition processDeltaRequest ::
    "Server \<Rightarrow> Connection \<Rightarrow> DeltaDiscoveryRequest \<Rightarrow> time \<Rightarrow>
     Panic + (error option \<times> Connection)" where
  "processDeltaRequest s con req now =
    (if \<not> shouldProcessRequest s con req then Inr (None, con)
     else if prefix (DebugType s) (ReqTypeUrl req) then
       Inr (pushXds s con (newWatchedResource (ReqTypeUrl req) (ResourceNamesSubscribe req)))
     else
       (case shouldRespondDelta s con req of
          Inl p \<Rightarrow> Inl p
        | Inr (shouldRespond, con1) \<Rightarrow>
           (let push = globalPushContext s;
                picked =
                  (if shouldRespond then
                     Some (\<lparr>Full = True, Push = push, Reason = [], Start = 0\<rparr>, con1)
                   else
                     (case blockedPushes con1 (ReqTypeUrl req) of
                        None \<Rightarrow> None
                      | Some blocked \<Rightarrow>
                          Some (blocked, con1\<lparr>blockedPushes :=
                                  (blockedPushes con1)(ReqTypeUrl req := None)\<rparr>)))
            in case picked of
                 None \<Rightarrow> Inr (None, con1)
               | Some (request0, con2) \<Rightarrow>
                   (let request = request0\<lparr>Reason := Reason request0 @ [ProxyRequest],
                                           Start := now\<rparr>
                    in Inr (pushDeltaXds s con2 push (Watched con2 (ReqTypeUrl req))
                          (if ResourceNamesSubscribe req = [] then None
                           else Some (ResourceNamesSubscribe req))
                          request now)))))"

subsection \<open>The push scheduler\<close>

text \<open>
  Modelled from the spec: \<open>Connection.Synced\<close> is not among the sources. A type is synced
  when the last nonce sent has been acknowledged, and timed out when more than the
  flow-control timeout has passed since the last send. Reading the entry of a type that
  has none dereferences nil.
\<close>

definition Synced :: "Server \<Rightarrow> Connection \<Rightarrow> string \<Rightarrow> time \<Rightarrow> (bool \<times> bool) option" where
  "Synced s conn t now =
    (case WatchedResources conn t of
       None \<Rightarrow> None
     | Some w \<Rightarrow> Some (NonceSent w = NonceAcked w, now - LastSent w > FlowControlTimeout s))"

text \<open>
  Modelled from the spec: \<open>Connection.pushDetails\<close> is not among the sources. It lists the
  resource types that the connection currently watches; \<open>pushOrder\<close> names every type
  URL once, in the order of pushing.
\<close>

definition pushDetails :: "Server \<Rightarrow> Connection \<Rightarrow> string list" where
  "pushDetails s con = filter (\<lambda>k. WatchedResources con k \<noteq> None) (pushOrder s)"

text \<open>
  The loop over \<open>wrl\<close>. The slots of \<open>wrl\<close> stay in the table while the loop runs, so
  the first case of the lookup is never taken.
\<close>

fun pushLoop ::
    "Server \<Rightarrow> PushRequest \<Rightarrow> time \<Rightarrow> string list \<Rightarrow> Connection \<Rightarrow>
     Panic + (error option \<times> Connection)" where
  "pushLoop s pushRequest now [] con = Inr (None, con)"
| "pushLoop s pushRequest now (k # wrl) con =
    (case WatchedResources con k of
       None \<Rightarrow> pushLoop s pushRequest now wrl con
     | Some w \<Rightarrow>
        if \<not> EnableFlowControl s then
          (case pushDeltaXds s con (Push pushRequest) (Some k) None pushRequest now of
             (Some e, con1) \<Rightarrow> Inr (Some e, con1)
           | (None, con1) \<Rightarrow> pushLoop s pushRequest now wrl con1)
        else
          (case Synced s con (TypeUrl w) now of
             None \<Rightarrow> Inl NilDereference
           | Some (synced, timeout) \<Rightarrow>
              if synced \<or> timeout then
                (case pushDeltaXds s con (Push pushRequest) (Some k) None pushRequest now of
                   (Some e, con1) \<Rightarrow> Inr (Some e, con1)
                 | (None, con1) \<Rightarrow> pushLoop s pushRequest now wrl con1)
              else
                pushLoop s pushRequest now wrl
                  (con\<lparr>blockedPushes := (blockedPushes con)
                     (TypeUrl w \<mapsto> CopyMerge s (blockedPushes con (TypeUrl w)) pushRequest)\<rparr>)))"

definition pushConnectionDelta ::
    "Server \<Rightarrow> Connection \<Rightarrow> PushRequest \<Rightarrow> time \<Rightarrow> Panic + (error option \<times> Connection)" where
  "pushConnectionDelta s con pushRequest now =
    (if \<not> ProxyNeedsPush s con pushRequest then Inr (None, con)
     else pushLoop s pushRequest now (pushDetails s con) con)"

subsection \<open>The receive loop and the stream loop\<close>

text \<open>
  What \<open>deltaStream.Recv\<close> returns, one value per call: a frame, with the outcome of
  the select that hands it to the stream loop (\<open>True\<close> when the loop took it, \<open>False\<close>
  when the stream's context was done first), or an error, with the verdict of
  \<open>IsExpectedGRPCError\<close>.
\<close>

datatype RecvResult = RecvFrame DeltaDiscoveryRequest bool | RecvError error bool

text \<open>
  The channels of the connection as the receive loop leaves them: the requests put on
  \<open>deltaReqChan\<close> and the errors put on \<open>errorChan\<close>, oldest first, whether both are
  closed, whether the channel \<open>initialized\<close> is closed, the calls of \<open>initConnection\<close>
  (a successful one registers the connection and closes \<open>initialized\<close>), and the number
  of calls of \<open>closeConnection\<close>.
\<close>

record Channels =
  deltaReqChan :: "DeltaDiscoveryRequest list"
  errorChan :: "error list"
  closed :: bool
  initializedClosed :: bool
  initConnectionCalls :: "(Node \<times> string list) list"
  closeConnectionCalls :: nat
  recvErrorLog :: "LogEntry list"

definition newDeltaConnection :: Channels where
  "newDeltaConnection =
     \<lparr>deltaReqChan = [], errorChan = [], closed = False, initializedClosed = False,
      initConnectionCalls = [], closeConnectionCalls = 0, recvErrorLog = []\<rparr>"

text \<open>
  Leaving \<open>receiveDelta\<close>: the deferred \<open>closeConnection\<close>, if the connection was
  initialized, then the deferred closing of the channels.
\<close>

definition receiveReturn :: "bool \<Rightarrow> Channels \<Rightarrow> Channels" where
  "receiveReturn deferredClose ch =
     ch\<lparr>closeConnectionCalls := closeConnectionCalls ch + (if deferredClose then 1 else 0),
        closed := True, initializedClosed := True\<rparr>"

text \<open>
  The loop of \<open>receiveDelta\<close> over the values that \<open>Recv\<close> returns. When they run out
  the loop is blocked in \<open>Recv\<close> and has not returned: the channels are still open.
\<close>

fun receiveLoop ::
    "Server \<Rightarrow> string list \<Rightarrow> bool \<Rightarrow> bool \<Rightarrow> RecvResult list \<Rightarrow> Channels \<Rightarrow> Channels" where
  "receiveLoop s identities firstRequest deferredClose [] ch = ch"
| "receiveLoop s identities firstRequest deferredClose (RecvError e expected # rest) ch =
    (if expected then receiveReturn deferredClose ch
     else receiveReturn deferredClose
            (ch\<lparr>errorChan := errorChan ch @ [e],
                recvErrorLog := recvErrorLog ch @ [RecvTerminated e]\<rparr>))"
| "receiveLoop s identities firstRequest deferredClose (RecvFrame req taken # rest) ch =
    (if firstRequest then
       (case ReqNode req of
          None \<Rightarrow>
            receiveReturn deferredClose
              (ch\<lparr>errorChan := errorChan ch @
                    [StatusError InvalidArgument ''missing node information'']\<rparr>)
        | Some node \<Rightarrow>
            if Id node = [] then
              receiveReturn deferredClose
                (ch\<lparr>errorChan := errorChan ch @
                      [StatusError InvalidArgument ''missing node information'']\<rparr>)
            else
              (let ch0 = ch\<lparr>initConnectionCalls := initConnectionCalls ch @ [(node, identities)]\<rparr>
               in case initConnection s node identities of
                    Some e \<Rightarrow> receiveReturn deferredClose (ch0\<lparr>errorChan := errorChan ch0 @ [e]\<rparr>)
                  | None \<Rightarrow>
                     (let ch1 = ch0\<lparr>initializedClosed := True\<rparr>
                      in if taken then
                           receiveLoop s identities False True rest
                             (ch1\<lparr>deltaReqChan := deltaReqChan ch1 @ [req]\<rparr>)
                         else receiveReturn True ch1)))
     else if taken then
       receiveLoop s identities False deferredClose rest
         (ch\<lparr>deltaReqChan := deltaReqChan ch @ [req]\<rparr>)
     else receiveReturn deferredClose ch)"

definition receiveDelta :: "Server \<Rightarrow> string list \<Rightarrow> RecvResult list \<Rightarrow> Channels" where
  "receiveDelta s identities recvs = receiveLoop s identities True False recvs newDeltaConnection"

text \<open>
  The \<open>for { select }\<close> loop of \<open>StreamDeltas\<close>, over the cases that the select takes,
  each with the time at which it is handled: a request from \<open>deltaReqChan\<close>, the closed
  \<open>deltaReqChan\<close>, a push event, the stop signal. \<open>errs\<close> is what \<open>errorChan\<close> holds
  when it is read. The result is \<open>None\<close> while the loop still waits.
\<close>

datatype Selected =
    GotRequest DeltaDiscoveryRequest
  | RequestsClosed
  | GotPush PushRequest
  | Stopped

fun streamLoop ::
    "Server \<Rightarrow> error list \<Rightarrow> (Selected \<times> time) list \<Rightarrow> Connection \<Rightarrow>
     (Panic + error option) option" where
  "streamLoop s errs [] con = None"
| "streamLoop s errs ((GotRequest req, now) # evs) con =
    (case processDeltaRequest s con req now of
       Inl p \<Rightarrow> Some (Inl p)
     | Inr (Some e, con1) \<Rightarrow> Some (Inr (Some e))
     | Inr (None, con1) \<Rightarrow> streamLoop s errs evs con1)"
| "streamLoop s errs ((RequestsClosed, now) # evs) con =
    Some (Inr (case errs of [] \<Rightarrow> None | e # es \<Rightarrow> Some e))"
| "streamLoop s errs ((GotPush pushRequest, now) # evs) con =
    (case pushConnectionDelta s con pushRequest now of
       Inl p \<Rightarrow> Some (Inl p)
     | Inr (Some e, con1) \<Rightarrow> Some (Inr (Some e))
     | Inr (None, con1) \<Rightarrow> streamLoop s errs evs con1)"
| "streamLoop s errs ((Stopped, now) # evs) con = Some (Inr None)"

subsection \<open>A small configuration\<close>

text \<open>
  A server with flow control on and assertions off, one generator of the second kind
  that knows a single resource \<open>a\<close>, a transport that always succeeds, and a merge of
  push requests that keeps the older start, the newer context and all reasons.
\<close>

definition exGenerate ::
    "Connection \<Rightarrow> PushContext \<Rightarrow> WatchedResource \<Rightarrow> PushRequest \<Rightarrow>
     Resource list option \<times> error option" where
  "exGenerate con push w req =
     (Some (filter (\<lambda>r. Name r \<in> set (ResourceNames w)) [\<lparr>Name = ''a'', Value = ''1''\<rparr>]), None)"

definition exMerge :: "PushRequest option \<Rightarrow> PushRequest \<Rightarrow> PushRequest" where
  "exMerge pr other =
     (case pr of
        None \<Rightarrow> other
      | Some p \<Rightarrow> \<lparr>Full = Full p \<or> Full other, Push = Push other,
                   Reason = Reason p @ Reason other, Start = Start p\<rparr>)"

definition exServer :: Server where
  "exServer =
     \<lparr>EnableFlowControl = True, EnableUnsafeAssertions = False, FlowControlTimeout = 15,
      DebugType = ''istio.io/debug'',
      globalPushContext = \<lparr>PushVersion = ''v2'', LedgerVersion = ''l2''\<rparr>,
      isWildcardTypeURL = (\<lambda>t. False),
      nonce = (\<lambda>prefix. prefix @ ''-1''),
      findGenerator = (\<lambda>t. Some (XdsResourceGenerator exGenerate)),
      Send = (\<lambda>n res. None),
      ProxyNeedsPush = (\<lambda>con req. True),
      shouldProcessRequest = (\<lambda>con req. True),
      pushXds = (\<lambda>con w. (None, con)),
      CopyMerge = exMerge,
      pushOrder = [''cds''],
      initConnection = (\<lambda>node identities. None)\<rparr>"

definition exRequest :: "string \<Rightarrow> string list \<Rightarrow> string list \<Rightarrow> DeltaDiscoveryRequest" where
  "exRequest n subscribe unsubscribe =
     \<lparr>ReqNode = None, ReqTypeUrl = ''cds'', ResourceNamesSubscribe = subscribe,
      ResourceNamesUnsubscribe = unsubscribe, ResponseNonce = n, ErrorDetail = None\<rparr>"

definition exWatched :: "string list \<Rightarrow> WatchedResource" where
  "exWatched names =
     \<lparr>TypeUrl = ''cds'', ResourceNames = names, VersionSent = ''v1'', NonceSent = ''n2'',
      NonceAcked = ''n1'', NonceNacked = [], LastSent = 100\<rparr>"

definition exEmpty :: Connection where
  "exEmpty = \<lparr>WatchedResources = Map.empty, blockedPushes = Map.empty, sent = [], errorLog = []\<rparr>"

definition exConnection :: "string list \<Rightarrow> Connection" where
  "exConnection names = exEmpty\<lparr>WatchedResources := [''cds'' \<mapsto> exWatched names]\<rparr>"

definition exBlocked :: PushRequest where
  "exBlocked =
     \<lparr>Full = False, Push = \<lparr>PushVersion = ''v1'', LedgerVersion = ''l1''\<rparr>,
      Reason = [ConfigUpdate], Start = 90\<rparr>"


definition exResponse :: DeltaDiscoveryResponse where
  "exResponse =
     \<lparr>RespTypeUrl = ''cds'', SystemVersionInfo = ''v2'', Nonce = ''n3'',
      Resources = [\<lparr>Name = ''a'', Value = ''1''\<rparr>], RemovedResources = []\<rparr>"

definition exBrokenTransport :: Server where
  "exBrokenTransport = exServer\<lparr>Send := (\<lambda>n res. Some (TransportError ''timeout''))\<rparr>"

text \<open>
  A generator whose only resource tells which push request it was given, and a server
  that uses it.
\<close>

definition exEcho ::
    "Connection \<Rightarrow> PushContext \<Rightarrow> WatchedResource \<Rightarrow> PushRequest \<Rightarrow>
     Resource list option \<times> error option" where
  "exEcho con push w req =
     (Some [\<lparr>Name = (if Full req then ''full'' else ''partial''),
             Value = PushVersion (Push req)\<rparr>], None)"

definition exEchoServer :: Server where
  "exEchoServer = exServer\<lparr>findGenerator := (\<lambda>t. Some (XdsResourceGenerator exEcho))\<rparr>"

definition exFull :: PushRequest where
  "exFull =
     \<lparr>Full = True, Push = \<lparr>PushVersion = ''v2'', LedgerVersion = ''l2''\<rparr>,
      Reason = [ConfigUpdate], Start = 110\<rparr>"


text \<open>
  The connection of the examples with a push blocked for its type, and the same
  connection after it has acknowledged \<open>n2\<close> and subscribed \<open>b\<close>.
\<close>

definition exQueued :: Connection where
  "exQueued = (exConnection [''a''])\<lparr>blockedPushes := [''cds'' \<mapsto> exBlocked]\<rparr>"

definition exQueuedAcked :: Connection where
  "exQueuedAcked =
     exQueued\<lparr>WatchedResources :=
                 [''cds'' \<mapsto> (exWatched [''a'', ''b''])\<lparr>NonceAcked := ''n2''\<rparr>],
              errorLog := [AckMismatch ''cds'' True False]\<rparr>"

section \<open>Properties\<close>

subsection \<open>The small configuration, field by field\<close>

lemma exRequest_simps:
  "ReqNode (exRequest n subscribe unsubscribe) = None"
  "ReqTypeUrl (exRequest n subscribe unsubscribe) = ''cds''"
  "ResourceNamesSubscribe (exRequest n subscribe unsubscribe) = subscribe"
  "ResourceNamesUnsubscribe (exRequest n subscribe unsubscribe) = unsubscribe"
  "ResponseNonce (exRequest n subscribe unsubscribe) = n"
  "ErrorDetail (exRequest n subscribe unsubscribe) = None"
  by (simp_all add: exRequest_def)

lemma exServer_simps:
  "EnableFlowControl exServer"
  "\<not> EnableUnsafeAssertions exServer"
  "FlowControlTimeout exServer = 15"
  "DebugType exServer = ''istio.io/debug''"
  "globalPushContext exServer = \<lparr>PushVersion = ''v2'', LedgerVersion = ''l2''\<rparr>"
  "isWildcardTypeURL exServer t = False"
  "nonce exServer p = p @ ''-1''"
  "findGenerator exServer t = Some (XdsResourceGenerator exGenerate)"
  "Send exServer n res = None"
  "ProxyNeedsPush exServer con pr = True"
  "shouldProcessRequest exServer con req = True"
  "CopyMerge exServer = exMerge"
  "pushOrder exServer = [''cds'']"
  by (simp_all add: exServer_def)

lemma exEchoServer_simps:
  "\<not> EnableUnsafeAssertions exEchoServer"
  "DebugType exEchoServer = ''istio.io/debug''"
  "globalPushContext exEchoServer = \<lparr>PushVersion = ''v2'', LedgerVersion = ''l2''\<rparr>"
  "isWildcardTypeURL exEchoServer t = False"
  "nonce exEchoServer p = p @ ''-1''"
  "findGenerator exEchoServer t = Some (XdsResourceGenerator exEcho)"
  "Send exEchoServer n res = None"
  "shouldProcessRequest exEchoServer con req = True"
  by (simp_all add: exEchoServer_def exServer_def)

lemma exQueued_simps:
  "WatchedResources exQueued = [''cds'' \<mapsto> exWatched [''a'']]"
  "blockedPushes exQueued = [''cds'' \<mapsto> exBlocked]"
  "sent exQueued = []"
  "errorLog exQueued = []"
  by (simp_all add: exQueued_def exConnection_def exEmpty_def)

lemmas ex_simps = exRequest_simps exServer_simps exEchoServer_simps exQueued_simps

subsection \<open>Subscription sets\<close>

lemma set_deltaWatchedResources:
  "set (deltaWatchedResources existing request) =
     (set existing \<union> set (ResourceNamesSubscribe request)) - set (ResourceNamesUnsubscribe request)"
  by (simp add: deltaWatchedResources_def SortedList_def Delete_def Insert_def NewSet_def)

lemma deltaWatchedResources_sorted_list_of_set:
  "deltaWatchedResources existing request =
     sorted_list_of_set
       ((set existing \<union> set (ResourceNamesSubscribe request)) - set (ResourceNamesUnsubscribe request))"
  by (simp add: deltaWatchedResources_def SortedList_def Delete_def Insert_def NewSet_def)



text \<open>
  C9. A name that a request both subscribes and unsubscribes is not in the names that
  \<open>deltaWatchedResources\<close> stores, and the stored list is sorted and has no duplicates.
\<close>

theorem deltaWatchedResources_unsubscribe_wins:
  "(x \<in> set (ResourceNamesSubscribe request) \<and> x \<in> set (ResourceNamesUnsubscribe request) \<longrightarrow>
      x \<notin> set (deltaWatchedResources existing request)) \<and>
   sorted (deltaWatchedResources existing request) \<and>
   distinct (deltaWatchedResources existing request)"
  by (simp add: deltaWatchedResources_sorted_list_of_set)

theorem deltaWatchedResources_unsubscribe_wins_witness:
  "''c'' \<notin> set (deltaWatchedResources [''b'', ''a''] (exRequest [] [''c'', ''a''] [''c''])) \<and>
   sorted (deltaWatchedResources [''b'', ''a''] (exRequest [] [''c'', ''a''] [''c''])) \<and>
   distinct (deltaWatchedResources [''b'', ''a''] (exRequest [] [''c'', ''a''] [''c'']))"
  using deltaWatchedResources_unsubscribe_wins
    [where x = "''c''" and request = "exRequest [] [''c'', ''a''] [''c'']" and existing = "[''b'', ''a'']"]
  by (simp add: exRequest_simps)

subsection \<open>Is a response owed?\<close>







text \<open>
  C7. With the unsafe assertions disabled \<open>shouldRespondDelta\<close> never panics. When the
  request is an acknowledgement or a spontaneous request for a watched type, a
  disagreement between the two checks only adds an entry to the error log, and the
  answer is the negation of the comparison of the name sets in either case.
\<close>

theorem shouldRespondDelta_no_panic:
  assumes "\<not> EnableUnsafeAssertions s"
  shows "(\<exists>owed con'. shouldRespondDelta s con request = Inr (owed, con')) \<and>
    (ErrorDetail request = None \<and> WatchedResources con (ReqTypeUrl request) = Some w \<and>
     (ResponseNonce request = [] \<or> ResponseNonce request = NonceSent w) \<longrightarrow>
      (\<exists>con'. shouldRespondDelta s con request =
          Inr (\<not> listEqualUnordered (ResourceNames w)
                  (deltaWatchedResources (ResourceNames w) request), con') \<and>
        errorLog con' = errorLog con @
          (if (ResponseNonce request \<noteq> []) \<noteq>
              listEqualUnordered (ResourceNames w) (deltaWatchedResources (ResourceNames w) request)
           then [AckMismatch (ReqTypeUrl request) (ResponseNonce request \<noteq> [])
                   (listEqualUnordered (ResourceNames w)
                      (deltaWatchedResources (ResourceNames w) request))]
           else [])))"
  using assms by (auto simp: shouldRespondDelta_def Let_def split: option.splits)

text \<open>
  An acknowledgement of \<open>n2\<close> that also subscribes \<open>b\<close>: the checks disagree, the
  disagreement is logged and the request is answered.
\<close>

theorem shouldRespondDelta_no_panic_witness:
  "\<not> EnableUnsafeAssertions exServer \<and>
   map_sum id (\<lambda>(owed, con'). (owed, errorLog con'))
     (shouldRespondDelta exServer (exConnection [''a'']) (exRequest ''n2'' [''b''] [])) =
   Inr (True, [AckMismatch ''cds'' True False])"
proof -
  have unsafe: "\<not> EnableUnsafeAssertions exServer"
    by (simp add: exRequest_simps exServer_def)
  have names: "listEqualUnordered [''a''] (deltaWatchedResources [''a''] (exRequest ''n2'' [''b''] []))
      = False"
    by (simp add: exRequest_simps listEqualUnordered_def set_deltaWatchedResources)
  show ?thesis
    using shouldRespondDelta_no_panic
      [OF unsafe, where con = "exConnection [''a'']" and request = "exRequest ''n2'' [''b''] []"
          and w = "exWatched [''a'']"]
      unsafe names
    by (auto simp: exRequest_simps exConnection_def exWatched_def exEmpty_def)
qed

subsection \<open>Bookkeeping of sent responses\<close>

text \<open>
  C10. \<open>sendDelta\<close> records the nonce, the version and the time of a response in the
  watched resource of its type, creating it when there is none, when the send succeeds,
  the nonce is not empty and the type is not a debug type; no other field and no other
  type changes then. In every other case the table of watched resources stays as it is,
  and on a send error the whole connection does.
\<close>

theorem sendDelta_bookkeeping:
  "(Send s (length (sent conn)) res = None \<and> Nonce res \<noteq> [] \<and>
      \<not> prefix (DebugType s) (RespTypeUrl res) \<longrightarrow>
      sendDelta s conn res now =
        (None, conn\<lparr>sent := sent conn @ [res],
           WatchedResources := (WatchedResources conn)
             (RespTypeUrl res \<mapsto>
                (case WatchedResources conn (RespTypeUrl res) of
                   None \<Rightarrow> newWatchedResource (RespTypeUrl res) []
                 | Some w \<Rightarrow> w)
                \<lparr>NonceSent := Nonce res, VersionSent := SystemVersionInfo res,
                  LastSent := now\<rparr>)\<rparr>)) \<and>
   (\<not> (Send s (length (sent conn)) res = None \<and> Nonce res \<noteq> [] \<and>
      \<not> prefix (DebugType s) (RespTypeUrl res)) \<longrightarrow>
      WatchedResources (snd (sendDelta s conn res now)) = WatchedResources conn) \<and>
   (\<forall>e. Send s (length (sent conn)) res = Some e \<longrightarrow> sendDelta s conn res now = (Some e, conn))"
  by (auto simp: sendDelta_def Let_def split: option.splits)

text \<open>
  A response with nonce \<open>n3\<close> and version \<open>v2\<close>, sent at time 120: the transport that
  works records it, the broken one leaves the connection untouched, and a response
  without a nonce is sent but not recorded.
\<close>

theorem sendDelta_bookkeeping_witness:
  "sendDelta exServer (exConnection [''a'']) exResponse 120 =
     (None, exEmpty\<lparr>sent := [exResponse],
        WatchedResources := [''cds'' \<mapsto>
          (exWatched [''a''])\<lparr>NonceSent := ''n3'', VersionSent := ''v2'', LastSent := 120\<rparr>]\<rparr>) \<and>
   sendDelta exBrokenTransport (exConnection [''a'']) exResponse 120 =
     (Some (TransportError ''timeout''), exConnection [''a'']) \<and>
   WatchedResources (snd (sendDelta exServer (exConnection [''a'']) (exResponse\<lparr>Nonce := []\<rparr>) 120)) =
     WatchedResources (exConnection [''a''])"
proof -
  have ok: "Send exServer (length (sent (exConnection [''a'']))) exResponse = None \<and>
      Nonce exResponse \<noteq> [] \<and> \<not> prefix (DebugType exServer) (RespTypeUrl exResponse)"
    by (simp add: exRequest_simps exServer_def exResponse_def)
  have broken: "Send exBrokenTransport (length (sent (exConnection [''a'']))) exResponse =
      Some (TransportError ''timeout'')"
    by (simp add: exRequest_simps exBrokenTransport_def)
  have 1: "sendDelta exServer (exConnection [''a'']) exResponse 120 =
     (None, exEmpty\<lparr>sent := [exResponse],
        WatchedResources := [''cds'' \<mapsto>
          (exWatched [''a''])\<lparr>NonceSent := ''n3'', VersionSent := ''v2'', LastSent := 120\<rparr>]\<rparr>)"
    using sendDelta_bookkeeping
        [where s = exServer and conn = "exConnection [''a'']" and res = exResponse and now = 120] ok
    by (simp add: exRequest_simps exConnection_def exEmpty_def exResponse_def)
  have 2: "sendDelta exBrokenTransport (exConnection [''a'']) exResponse 120 =
     (Some (TransportError ''timeout''), exConnection [''a''])"
    using sendDelta_bookkeeping
        [where s = exBrokenTransport and conn = "exConnection [''a'']" and res = exResponse and now = 120] broken
    by (simp add: exRequest_simps)
  have 3: "WatchedResources (snd (sendDelta exServer (exConnection [''a''])
        (exResponse\<lparr>Nonce := []\<rparr>) 120)) = WatchedResources (exConnection [''a''])"
    using sendDelta_bookkeeping
        [where s = exServer and conn = "exConnection [''a'']" and res = "exResponse\<lparr>Nonce := []\<rparr>"
           and now = 120]
    by (simp add: exRequest_simps)
  from 1 2 3 show ?thesis by (simp add: exRequest_simps)
qed

subsection \<open>The removed resources of a response\<close>

lemma sendDelta_blockedPushes:
  "blockedPushes (snd (sendDelta s conn res now)) = blockedPushes conn"
  by (simp add: sendDelta_def Let_def split: option.splits)

lemma pushDeltaXds_blockedPushes:
  "blockedPushes (snd (pushDeltaXds s con push wp subscribe req now)) = blockedPushes con"
  by (simp add: pushDeltaXds_def Let_def sendDelta_blockedPushes split: option.splits prod.splits)

lemma generate_sotw:
  "generate (XdsResourceGenerator g) con push req w = (res, deletedRes, usedDelta, err) \<Longrightarrow>
     deletedRes = None \<and> \<not> usedDelta"
  by (auto simp: generate_def split: prod.splits)

text \<open>
  C6. When \<open>pushDeltaXds\<close> builds a response, its removed resources are the
  generator's list, as it is, if the generator reported that it used delta, which only a
  delta-capable generator does; otherwise, for a full push, the sorted difference of the
  names of the watched resource given to the generator and the names of the generated
  resources; otherwise none. The watched resource given to the generator is the stored
  one when no names were asked for, and else holds just the names that were asked for.
\<close>

theorem pushDeltaXds_removed:
  assumes "WatchedResources con k = Some w0"
    and "findGenerator s (TypeUrl w0) = Some gen"
    and "w = (case subscribe of None \<Rightarrow> w0 | Some names \<Rightarrow> newWatchedResource (TypeUrl w0) names)"
    and "generate gen con push req w = (res, deletedRes, usedDelta, None)"
    and "res \<noteq> None \<or> deletedRes \<noteq> None"
  shows "pushDeltaXds s con push (Some k) subscribe req now =
      sendDelta s
        (if subscribe = None \<and> isWildcardTypeURL s (TypeUrl w0)
         then con\<lparr>WatchedResources := (WatchedResources con)
                (k \<mapsto> w0\<lparr>ResourceNames := map Name (case res of None \<Rightarrow> [] | Some r \<Rightarrow> r)\<rparr>)\<rparr>
         else con)
        \<lparr>RespTypeUrl = TypeUrl w0,
         SystemVersionInfo = PushVersion push,
         Nonce = nonce s (LedgerVersion push),
         Resources = (case res of None \<Rightarrow> [] | Some r \<Rightarrow> r),
         RemovedResources =
           (if usedDelta then (case deletedRes of None \<Rightarrow> [] | Some d \<Rightarrow> d)
            else if Full req then
              sorted_list_of_set
                (set (ResourceNames w) - set (map Name (case res of None \<Rightarrow> [] | Some r \<Rightarrow> r)))
            else [])\<rparr>
        now \<and>
    (usedDelta \<longrightarrow> (\<exists>g. gen = XdsDeltaResourceGenerator g))"
proof -
  have kind: "usedDelta \<longrightarrow> (\<exists>g. gen = XdsDeltaResourceGenerator g)"
    using assms(4) by (cases gen) (auto dest: generate_sotw)
  have url: "TypeUrl w = TypeUrl w0"
    using assms(3) by (simp add: newWatchedResource_def split: option.splits)
  have "pushDeltaXds s con push (Some k) subscribe req now =
      sendDelta s
        (if subscribe = None \<and> isWildcardTypeURL s (TypeUrl w0)
         then con\<lparr>WatchedResources := (WatchedResources con)
                (k \<mapsto> w0\<lparr>ResourceNames := map Name (case res of None \<Rightarrow> [] | Some r \<Rightarrow> r)\<rparr>)\<rparr>
         else con)
        \<lparr>RespTypeUrl = TypeUrl w0,
         SystemVersionInfo = PushVersion push,
         Nonce = nonce s (LedgerVersion push),
         Resources = (case res of None \<Rightarrow> [] | Some r \<Rightarrow> r),
         RemovedResources =
           (if usedDelta then (case deletedRes of None \<Rightarrow> [] | Some d \<Rightarrow> d)
            else if Full req then
              sorted_list_of_set
                (set (ResourceNames w) - set (map Name (case res of None \<Rightarrow> [] | Some r \<Rightarrow> r)))
            else [])\<rparr>
        now"
    using assms(1,2,5) assms(4) [unfolded assms(3)] url [unfolded assms(3)]
    unfolding pushDeltaXds_def assms(3)
    by (cases res; cases deletedRes)
      (simp_all add: Let_def extractNames_def SortedList_def Delete_def NewSet_def)
  with kind show ?thesis by simp
qed

text \<open>
  A full push for a client that holds \<open>a\<close> and \<open>b\<close>, where only \<open>a\<close> exists: the response
  carries \<open>a\<close> and removes \<open>b\<close>.
\<close>

theorem pushDeltaXds_removed_witness:
  "map (\<lambda>r. (map Name (Resources r), RemovedResources r))
     (sent (snd (pushDeltaXds exServer (exConnection [''a'', ''b'']) (Push exFull)
        (Some ''cds'') None exFull 120))) =
   [([''a''], [''b''])]"
proof -
  have w: "WatchedResources (exConnection [''a'', ''b'']) ''cds'' = Some (exWatched [''a'', ''b''])"
    by (simp add: exRequest_simps exConnection_def)
  have gen: "findGenerator exServer (TypeUrl (exWatched [''a'', ''b''])) =
      Some (XdsResourceGenerator exGenerate)"
    by (simp add: exRequest_simps exServer_def)
  have out: "generate (XdsResourceGenerator exGenerate) (exConnection [''a'', ''b'']) (Push exFull)
      exFull (exWatched [''a'', ''b'']) = (Some [\<lparr>Name = ''a'', Value = ''1''\<rparr>], None, False, None)"
    by (simp add: exRequest_simps generate_def exGenerate_def exWatched_def)
  have removed: "sorted_list_of_set (set [''a'', ''b''] - set [''a'']) = [''b'']"
    by code_simp
  show ?thesis
    using pushDeltaXds_removed
      [where con = "exConnection [''a'', ''b'']" and k = "''cds''" and w0 = "exWatched [''a'', ''b'']"
         and s = exServer and gen = "XdsResourceGenerator exGenerate"
         and w = "exWatched [''a'', ''b'']" and subscribe = None and push = "Push exFull"
         and req = exFull and res = "Some [\<lparr>Name = ''a'', Value = ''1''\<rparr>]"
         and deletedRes = None and usedDelta = False and now = 120,
       OF w gen _ out]
      removed
    by (simp add: exRequest_simps sendDelta_def exServer_def exWatched_def exFull_def exConnection_def exEmpty_def)
qed

text \<open>
  The same client asks for \<open>b\<close> alone, a name that does not exist. The response removes
  \<open>b\<close>, the difference of the names asked for and the names generated; the difference
  of the stored names and the names generated would be \<open>a\<close> and \<open>b\<close>.
\<close>

theorem pushDeltaXds_removed_of_subscribed:
  "map_option ResourceNames (WatchedResources (exConnection [''a'', ''b'']) ''cds'') =
     Some [''a'', ''b''] \<and>
   map (\<lambda>r. (map Name (Resources r), RemovedResources r))
     (sent (snd (pushDeltaXds exServer (exConnection [''a'', ''b'']) (Push exFull)
        (Some ''cds'') (Some [''b'']) exFull 120))) =
   [([], [''b''])] \<and>
   SortedList (Delete (NewSet [''a'', ''b'']) []) = [''a'', ''b'']"
proof -
  have removed: "sorted_list_of_set (set [''b''] - set []) = [''b'']"
    by code_simp
  have stored: "SortedList (Delete (NewSet [''a'', ''b'']) []) = [''a'', ''b'']"
    by code_simp
  have "map (\<lambda>r. (map Name (Resources r), RemovedResources r))
     (sent (snd (pushDeltaXds exServer (exConnection [''a'', ''b'']) (Push exFull)
        (Some ''cds'') (Some [''b'']) exFull 120))) = [([], [''b''])]"
    using removed
    by (simp add: exRequest_simps pushDeltaXds_def generate_def exGenerate_def newWatchedResource_def Let_def
        extractNames_def SortedList_def Delete_def NewSet_def sendDelta_def
        exServer_def exWatched_def exFull_def exConnection_def exEmpty_def)
  with stored show ?thesis
    by (simp add: exRequest_simps exConnection_def exWatched_def)
qed

subsection \<open>Which push request answers a request\<close>

lemma shouldRespondDelta_blockedPushes:
  "shouldRespondDelta s con req = Inr (owed, con') \<Longrightarrow> blockedPushes con' = blockedPushes con"
  by (auto simp: shouldRespondDelta_def Let_def split: if_splits option.splits)

lemma shouldRespondDelta_watched:
  "shouldRespondDelta s con req = Inr (True, con') \<Longrightarrow>
     WatchedResources con' (ReqTypeUrl req) \<noteq> None"
  by (auto simp: shouldRespondDelta_def Let_def split: if_splits option.splits)

text \<open>
  C3. For a request that is processed and is not for a debug type: when a response is
  owed, \<open>processDeltaRequest\<close> pushes with a new full push request for the latest global
  push context, whether or not a push is blocked for the type, and the blocked pushes
  stay as they are. When no response is owed and a push is blocked for the type, that
  push is taken out of the blocked pushes and used; when none is blocked nothing is
  pushed.
\<close>

theorem processDeltaRequest_push_request:
  assumes "shouldProcessRequest s con req"
    and "\<not> prefix (DebugType s) (ReqTypeUrl req)"
    and "subscribe = (if ResourceNamesSubscribe req = [] then None
                      else Some (ResourceNamesSubscribe req))"
  shows "(shouldRespondDelta s con req = Inr (True, con') \<longrightarrow>
      processDeltaRequest s con req now =
        Inr (pushDeltaXds s con' (globalPushContext s) (Some (ReqTypeUrl req)) subscribe
               \<lparr>Full = True, Push = globalPushContext s, Reason = [ProxyRequest], Start = now\<rparr> now) \<and>
      blockedPushes (snd (pushDeltaXds s con' (globalPushContext s) (Some (ReqTypeUrl req)) subscribe
               \<lparr>Full = True, Push = globalPushContext s, Reason = [ProxyRequest], Start = now\<rparr> now))
        = blockedPushes con) \<and>
    (shouldRespondDelta s con req = Inr (False, con') \<and>
     blockedPushes con' (ReqTypeUrl req) = Some blocked \<longrightarrow>
      processDeltaRequest s con req now =
        Inr (pushDeltaXds s (con'\<lparr>blockedPushes := (blockedPushes con')(ReqTypeUrl req := None)\<rparr>)
               (globalPushContext s) (Watched con' (ReqTypeUrl req)) subscribe
               (blocked\<lparr>Reason := Reason blocked @ [ProxyRequest], Start := now\<rparr>) now)) \<and>
    (shouldRespondDelta s con req = Inr (False, con') \<and>
     blockedPushes con' (ReqTypeUrl req) = None \<longrightarrow>
      processDeltaRequest s con req now = Inr (None, con'))"
proof -
  have owed: "processDeltaRequest s con req now =
        Inr (pushDeltaXds s con' (globalPushContext s) (Some (ReqTypeUrl req)) subscribe
               \<lparr>Full = True, Push = globalPushContext s, Reason = [ProxyRequest], Start = now\<rparr> now)"
    if "shouldRespondDelta s con req = Inr (True, con')"
    using that assms shouldRespondDelta_watched [OF that]
    by (auto simp: processDeltaRequest_def Let_def Watched_def)
  have kept: "blockedPushes (snd (pushDeltaXds s con' (globalPushContext s) (Some (ReqTypeUrl req))
        subscribe \<lparr>Full = True, Push = globalPushContext s, Reason = [ProxyRequest], Start = now\<rparr> now))
        = blockedPushes con"
    if "shouldRespondDelta s con req = Inr (True, con')"
    using shouldRespondDelta_blockedPushes [OF that] by (simp add: pushDeltaXds_blockedPushes)
  have dequeued: "processDeltaRequest s con req now =
        Inr (pushDeltaXds s (con'\<lparr>blockedPushes := (blockedPushes con')(ReqTypeUrl req := None)\<rparr>)
               (globalPushContext s) (Watched con' (ReqTypeUrl req)) subscribe
               (blocked\<lparr>Reason := Reason blocked @ [ProxyRequest], Start := now\<rparr>) now)"
    if "shouldRespondDelta s con req = Inr (False, con')"
      and "blockedPushes con' (ReqTypeUrl req) = Some blocked"
    using that assms by (simp add: processDeltaRequest_def Let_def Watched_def)
  have unanswered: "processDeltaRequest s con req now = Inr (None, con')"
    if "shouldRespondDelta s con req = Inr (False, con')"
      and "blockedPushes con' (ReqTypeUrl req) = None"
    using that assms by (simp add: processDeltaRequest_def Let_def)
  show ?thesis
  proof (intro conjI impI)
    assume a: "shouldRespondDelta s con req = Inr (True, con')"
    show "processDeltaRequest s con req now =
        Inr (pushDeltaXds s con' (globalPushContext s) (Some (ReqTypeUrl req)) subscribe
               \<lparr>Full = True, Push = globalPushContext s, Reason = [ProxyRequest], Start = now\<rparr> now)"
      by (rule owed [OF a])
    show "blockedPushes (snd (pushDeltaXds s con' (globalPushContext s) (Some (ReqTypeUrl req))
        subscribe \<lparr>Full = True, Push = globalPushContext s, Reason = [ProxyRequest], Start = now\<rparr> now))
        = blockedPushes con"
      by (rule kept [OF a])
  next
    assume "shouldRespondDelta s con req = Inr (False, con') \<and>
      blockedPushes con' (ReqTypeUrl req) = Some blocked"
    then show "processDeltaRequest s con req now =
        Inr (pushDeltaXds s (con'\<lparr>blockedPushes := (blockedPushes con')(ReqTypeUrl req := None)\<rparr>)
               (globalPushContext s) (Watched con' (ReqTypeUrl req)) subscribe
               (blocked\<lparr>Reason := Reason blocked @ [ProxyRequest], Start := now\<rparr>) now)"
      using dequeued by simp
  next
    assume "shouldRespondDelta s con req = Inr (False, con') \<and>
      blockedPushes con' (ReqTypeUrl req) = None"
    then show "processDeltaRequest s con req now = Inr (None, con')"
      using unanswered by simp
  qed
qed

lemma exQueued_ack_subscribe:
  "shouldRespondDelta exEchoServer exQueued (exRequest ''n2'' [''b''] []) = Inr (True, exQueuedAcked)"
proof -
  have names: "deltaWatchedResources [''a''] (exRequest ''n2'' [''b''] []) = [''a'', ''b'']"
    by code_simp
  show ?thesis
    by (simp add: ex_simps shouldRespondDelta_def Let_def names listEqualUnordered_def exWatched_def
        exQueuedAcked_def)
qed

lemma exQueued_ack:
  "shouldRespondDelta exEchoServer exQueued (exRequest ''n2'' [] []) =
     Inr (False, exQueued\<lparr>WatchedResources := [''cds'' \<mapsto> (exWatched [''a''])\<lparr>NonceAcked := ''n2''\<rparr>]\<rparr>)"
proof -
  have names: "deltaWatchedResources [''a''] (exRequest ''n2'' [] []) = [''a'']"
    by code_simp
  show ?thesis
    by (simp add: ex_simps shouldRespondDelta_def Let_def names listEqualUnordered_def exWatched_def)
qed

lemma exQueued_ack_free:
  "shouldRespondDelta exEchoServer (exQueued\<lparr>blockedPushes := Map.empty\<rparr>) (exRequest ''n2'' [] []) =
     Inr (False, exQueued\<lparr>blockedPushes := Map.empty, WatchedResources :=
            [''cds'' \<mapsto> (exWatched [''a''])\<lparr>NonceAcked := ''n2''\<rparr>]\<rparr>)"
proof -
  have names: "deltaWatchedResources [''a''] (exRequest ''n2'' [] []) = [''a'']"
    by code_simp
  show ?thesis
    by (simp add: ex_simps shouldRespondDelta_def Let_def names listEqualUnordered_def exWatched_def)
qed

text \<open>
  A push is blocked for the type. The acknowledgement that subscribes \<open>b\<close> is answered
  with the new full push for version \<open>v2\<close>, and the blocked push stays where it is; the
  plain acknowledgement is followed by the blocked push, which leaves the blocked
  pushes; without a blocked push the plain acknowledgement is followed by nothing.
\<close>

theorem processDeltaRequest_push_request_witness:
  "map_sum id (\<lambda>(e, con'). (e, map Resources (sent con'), blockedPushes con' ''cds''))
     (processDeltaRequest exEchoServer exQueued (exRequest ''n2'' [''b''] []) 120) =
     Inr (None, [[\<lparr>Name = ''full'', Value = ''v2''\<rparr>]], Some exBlocked) \<and>
   map_sum id (\<lambda>(e, con'). (e, map Resources (sent con'), blockedPushes con' ''cds''))
     (processDeltaRequest exEchoServer exQueued (exRequest ''n2'' [] []) 120) =
     Inr (None, [[\<lparr>Name = ''partial'', Value = ''v1''\<rparr>]], None) \<and>
   map_sum id (\<lambda>(e, con'). (e, sent con'))
     (processDeltaRequest exEchoServer (exQueued\<lparr>blockedPushes := Map.empty\<rparr>)
        (exRequest ''n2'' [] []) 120) =
     Inr (None, [])"
proof -
  have 1: "map_sum id (\<lambda>(e, con'). (e, map Resources (sent con'), blockedPushes con' ''cds''))
     (processDeltaRequest exEchoServer exQueued (exRequest ''n2'' [''b''] []) 120) =
     Inr (None, [[\<lparr>Name = ''full'', Value = ''v2''\<rparr>]], Some exBlocked)"
    using processDeltaRequest_push_request
      [where s = exEchoServer and con = exQueued and req = "exRequest ''n2'' [''b''] []"
         and subscribe = "Some [''b'']" and con' = exQueuedAcked and now = 120]
      exQueued_ack_subscribe
    by (simp add: ex_simps pushDeltaXds_def generate_def exEcho_def newWatchedResource_def Let_def
        extractNames_def sendDelta_def exQueuedAcked_def split_def)
  have 2: "map_sum id (\<lambda>(e, con'). (e, map Resources (sent con'), blockedPushes con' ''cds''))
     (processDeltaRequest exEchoServer exQueued (exRequest ''n2'' [] []) 120) =
     Inr (None, [[\<lparr>Name = ''partial'', Value = ''v1''\<rparr>]], None)"
    using processDeltaRequest_push_request
      [where s = exEchoServer and con = exQueued and req = "exRequest ''n2'' [] []"
         and subscribe = None
         and con' = "exQueued\<lparr>WatchedResources :=
            [''cds'' \<mapsto> (exWatched [''a''])\<lparr>NonceAcked := ''n2''\<rparr>]\<rparr>"
         and blocked = exBlocked and now = 120]
      exQueued_ack
    by (simp add: ex_simps pushDeltaXds_def generate_def exEcho_def newWatchedResource_def Let_def
        extractNames_def sendDelta_def Watched_def exBlocked_def exWatched_def split_def)
  have 3: "map_sum id (\<lambda>(e, con'). (e, sent con'))
     (processDeltaRequest exEchoServer (exQueued\<lparr>blockedPushes := Map.empty\<rparr>)
        (exRequest ''n2'' [] []) 120) = Inr (None, [])"
    using processDeltaRequest_push_request
      [where s = exEchoServer and con = "exQueued\<lparr>blockedPushes := Map.empty\<rparr>"
         and req = "exRequest ''n2'' [] []" and subscribe = None
         and con' = "exQueued\<lparr>blockedPushes := Map.empty, WatchedResources :=
            [''cds'' \<mapsto> (exWatched [''a''])\<lparr>NonceAcked := ''n2''\<rparr>]\<rparr>"
         and now = 120]
      exQueued_ack_free
    by (simp add: ex_simps)
  show ?thesis
    using 1 2 3 by (simp add: ex_simps)
qed

text \<open>
  A response is owed, a push is blocked for the type, and the response comes from the new
  full push: its resource says \<open>full\<close> and \<open>v2\<close>, where the blocked push would have said
  \<open>partial\<close> and \<open>v1\<close>. The blocked push is still blocked afterwards.
\<close>

theorem processDeltaRequest_fresh_over_blocked:
  "blockedPushes exQueued ''cds'' = Some exBlocked \<and>
   map_sum id fst (shouldRespondDelta exEchoServer exQueued (exRequest ''n2'' [''b''] [])) = Inr True \<and>
   map_sum id (\<lambda>(e, con'). (map Resources (sent con'), blockedPushes con' ''cds''))
     (processDeltaRequest exEchoServer exQueued (exRequest ''n2'' [''b''] []) 120) =
     Inr ([[\<lparr>Name = ''full'', Value = ''v2''\<rparr>]], Some exBlocked)"
  by (simp add: ex_simps processDeltaRequest_def exQueued_ack_subscribe Watched_def
      pushDeltaXds_def generate_def exEcho_def newWatchedResource_def Let_def
      extractNames_def sendDelta_def exQueuedAcked_def split_def)

subsection \<open>Push now or block\<close>





subsection \<open>A first frame without node identity\<close>

text \<open>
  C8. When the first frame of a stream has no node, or a node with an empty id,
  \<open>receiveDelta\<close> puts the invalid-argument error \<open>missing node information\<close> on the
  error channel and returns, closing the channels: no request has been handed to the
  stream loop, and \<open>initConnection\<close> and \<open>closeConnection\<close> have not been called. The
  stream loop, finding the request channel closed, returns that error.
\<close>

theorem receiveDelta_missing_node:
  assumes "ReqNode req = None \<or> (\<exists>node. ReqNode req = Some node \<and> Id node = [])"
    and "ch = receiveDelta s identities (RecvFrame req taken # rest)"
  shows "errorChan ch = [StatusError InvalidArgument ''missing node information''] \<and>
    closed ch \<and> deltaReqChan ch = [] \<and> initConnectionCalls ch = [] \<and>
    closeConnectionCalls ch = 0 \<and>
    streamLoop s (errorChan ch) ((RequestsClosed, now) # evs) con =
      Some (Inr (Some (StatusError InvalidArgument ''missing node information'')))"
  using assms
  by (auto simp: receiveDelta_def receiveReturn_def newDeltaConnection_def)

text \<open>
  The first frame has a node with an empty id; a well-formed frame follows, in vain.
\<close>

theorem receiveDelta_missing_node_witness:
  "errorChan (receiveDelta exServer [''spiffe://cluster.local/ns/default/sa/default'']
      [RecvFrame ((exRequest [] [''a''] [])\<lparr>ReqNode := Some \<lparr>Id = []\<rparr>\<rparr>) True,
       RecvFrame ((exRequest [] [''a''] [])\<lparr>ReqNode := Some \<lparr>Id = ''sidecar~10.0.0.1''\<rparr>\<rparr>) True]) =
     [StatusError 3 ''missing node information''] \<and>
   initConnectionCalls (receiveDelta exServer [''spiffe://cluster.local/ns/default/sa/default'']
      [RecvFrame ((exRequest [] [''a''] [])\<lparr>ReqNode := Some \<lparr>Id = []\<rparr>\<rparr>) True,
       RecvFrame ((exRequest [] [''a''] [])\<lparr>ReqNode := Some \<lparr>Id = ''sidecar~10.0.0.1''\<rparr>\<rparr>) True]) = [] \<and>
   streamLoop exServer
     (errorChan (receiveDelta exServer [''spiffe://cluster.local/ns/default/sa/default'']
        [RecvFrame ((exRequest [] [''a''] [])\<lparr>ReqNode := Some \<lparr>Id = []\<rparr>\<rparr>) True,
         RecvFrame ((exRequest [] [''a''] [])\<lparr>ReqNode := Some \<lparr>Id = ''sidecar~10.0.0.1''\<rparr>\<rparr>) True]))
     [(RequestsClosed, 1)] exEmpty =
     Some (Inr (Some (StatusError 3 ''missing node information'')))"
  using receiveDelta_missing_node
    [where req = "(exRequest [] [''a''] [])\<lparr>ReqNode := Some \<lparr>Id = []\<rparr>\<rparr>"
       and s = exServer and identities = "[''spiffe://cluster.local/ns/default/sa/default'']"
       and taken = True
       and rest = "[RecvFrame ((exRequest [] [''a''] [])\<lparr>ReqNode := Some \<lparr>Id = ''sidecar~10.0.0.1''\<rparr>\<rparr>) True]"
       and now = 1 and evs = "[]" and con = exEmpty, OF _ refl]
  by (simp add: ex_simps InvalidArgument_def)

end
